theory Spec2Isabelle
  imports Complex_Main
begin

section \<open>Python values shared by the three components\<close>

text \<open>
  Exceptions raised by the modelled code are values of \<open>error\<close>; a fallible function
  returns \<open>error + 'a\<close> with \<open>Inl\<close> for the raise.
\<close>

datatype error =
    KeyError
  | IndexError
  | TypeError
  | AttributeError
  | NotImplementedError
  | RuntimeError
  | VendorError string

definition bind_err :: "error + 'a \<Rightarrow> ('a \<Rightarrow> error + 'b) \<Rightarrow> error + 'b" where
  "bind_err r f = (case r of Inl e \<Rightarrow> Inl e | Inr x \<Rightarrow> f x)"

text \<open>\<open>sep.join(xs)\<close> of Python, on a list of strings.\<close>

fun join_str :: "string \<Rightarrow> string list \<Rightarrow> string" where
  "join_str sep [] = []"
| "join_str sep [x] = x"
| "join_str sep (x # y # ys) = x @ sep @ join_str sep (y # ys)"

text \<open>
  \<open>str(n)\<close> of a Python integer: the decimal digits, with a leading minus sign for a
  negative number.
\<close>

definition digit_char :: "nat \<Rightarrow> char" where
  "digit_char d = ''0123456789'' ! (d mod 10)"

fun str_nat :: "nat \<Rightarrow> string" where
  "str_nat n = (if n < 10 then [digit_char n] else str_nat (n div 10) @ [digit_char (n mod 10)])"

declare str_nat.simps [simp del]

definition str_int :: "int \<Rightarrow> string" where
  "str_int i = (if i < 0 then CHR ''-'' # str_nat (nat (- i)) else str_nat (nat i))"

section \<open>Usage bookkeeping of the two chat adapters\<close>

text \<open>
  \<open>RequestUsage(prompt_tokens, completion_tokens)\<close> of the agent framework. The two
  counters \<open>_actual_usage\<close> and \<open>_total_usage\<close> are attributes that do not exist before
  the first call of \<open>_update_usage\<close> (the code tests \<open>hasattr\<close>), hence optional fields.
\<close>

record request_usage =
  prompt_tokens :: int
  completion_tokens :: int

record usage_state =
  actual_usage_attr :: "request_usage option"
  total_usage_attr :: "request_usage option"

definition fresh_usage :: usage_state where
  "fresh_usage = \<lparr>actual_usage_attr = None, total_usage_attr = None\<rparr>"

text \<open>Reading an attribute that was never set raises \<open>AttributeError\<close>.\<close>

definition getattr_usage :: "request_usage option \<Rightarrow> error + request_usage" where
  "getattr_usage a = (case a of None \<Rightarrow> Inl AttributeError | Some u \<Rightarrow> Inr u)"

text \<open>
  \<open>BedrockClaudeChatCompletionClient._update_usage\<close>: initialise both counters to zero
  when \<open>_actual_usage\<close> is missing, then add the delta to each of them.
\<close>

definition bedrock_update_usage :: "usage_state \<Rightarrow> request_usage \<Rightarrow> error + usage_state" where
  "bedrock_update_usage self delta =
     (let self1 = (if actual_usage_attr self = None
                   then self\<lparr>actual_usage_attr := Some \<lparr>prompt_tokens = 0, completion_tokens = 0\<rparr>,
                             total_usage_attr := Some \<lparr>prompt_tokens = 0, completion_tokens = 0\<rparr>\<rparr>
                   else self)
      in bind_err (getattr_usage (actual_usage_attr self1)) (\<lambda>a.
           let self2 = self1\<lparr>actual_usage_attr := Some
                 \<lparr>prompt_tokens = prompt_tokens a + prompt_tokens delta,
                  completion_tokens = completion_tokens a + completion_tokens delta\<rparr>\<rparr>
           in bind_err (getattr_usage (total_usage_attr self2)) (\<lambda>t.
                Inr (self2\<lparr>total_usage_attr := Some
                  \<lparr>prompt_tokens = prompt_tokens t + prompt_tokens delta,
                   completion_tokens = completion_tokens t + completion_tokens delta\<rparr>\<rparr>))))"

text \<open>\<open>GeminiChatCompletionClient._update_usage\<close>: the same statements.\<close>

definition gemini_update_usage :: "usage_state \<Rightarrow> request_usage \<Rightarrow> error + usage_state" where
  "gemini_update_usage self delta =
     (let self1 = (if actual_usage_attr self = None
                   then self\<lparr>actual_usage_attr := Some \<lparr>prompt_tokens = 0, completion_tokens = 0\<rparr>,
                             total_usage_attr := Some \<lparr>prompt_tokens = 0, completion_tokens = 0\<rparr>\<rparr>
                   else self)
      in bind_err (getattr_usage (actual_usage_attr self1)) (\<lambda>a.
           let self2 = self1\<lparr>actual_usage_attr := Some
                 \<lparr>prompt_tokens = prompt_tokens a + prompt_tokens delta,
                  completion_tokens = completion_tokens a + completion_tokens delta\<rparr>\<rparr>
           in bind_err (getattr_usage (total_usage_attr self2)) (\<lambda>t.
                Inr (self2\<lparr>total_usage_attr := Some
                  \<lparr>prompt_tokens = prompt_tokens t + prompt_tokens delta,
                   completion_tokens = completion_tokens t + completion_tokens delta\<rparr>\<rparr>))))"

text \<open>
  A run of successful \<open>create\<close> calls on one adapter instance: each call builds the
  \<open>RequestUsage\<close> of its own estimates and hands it to \<open>_update_usage\<close> exactly once.
  The run stops at the first exception.
\<close>

fun run_updates ::
  "(usage_state \<Rightarrow> request_usage \<Rightarrow> error + usage_state) \<Rightarrow> usage_state \<Rightarrow> request_usage list
     \<Rightarrow> error + usage_state" where
  "run_updates upd self [] = Inr self"
| "run_updates upd self (d # ds) = bind_err (upd self d) (\<lambda>self'. run_updates upd self' ds)"

definition sum_usage :: "request_usage list \<Rightarrow> request_usage" where
  "sum_usage ds = \<lparr>prompt_tokens = sum_list (map prompt_tokens ds),
                  completion_tokens = sum_list (map completion_tokens ds)\<rparr>"

section \<open>Messages handed to the chat adapters\<close>

text \<open>
  A message is a dict with the optional keys \<open>role\<close> and \<open>content\<close>, or a message-like
  object with the optional attributes of those names; for an object the model keeps the
  two things the code reads besides: its class name and its \<open>str()\<close> rendering.
  A content is a string, a list of parts, or another value; a value that is not a string
  carries its \<open>str()\<close> rendering, which is all the code ever takes from it.
\<close>

datatype part = PartStr string | PartObj string

fun py_str_part :: "part \<Rightarrow> string" where
  "py_str_part (PartStr s) = s"
| "py_str_part (PartObj rendering) = rendering"

datatype content = CStr string | CList "part list" | COther string

datatype message =
    MDict "string option" "content option"
  | MObj "string option" "content option" string string

text \<open>\<open>if isinstance(content, list): content = " ".join(str(p) for p in content)\<close>\<close>

fun join_list_content :: "content \<Rightarrow> content" where
  "join_list_content (CList ps) = CStr (join_str '' '' (map py_str_part ps))"
| "join_list_content (CStr s) = CStr s"
| "join_list_content (COther v) = COther v"

section \<open>Managed-endpoint (Bedrock) chat adapter\<close>

subsection \<open>\<open>_convert_messages\<close>\<close>

record chat_message =
  msg_role :: string
  msg_content :: content

text \<open>
  \<open>m.get("role", "user"), m.get("content", "")\<close> for a dict,
  \<open>getattr(m, "role", "user"), getattr(m, "content", str(m))\<close> otherwise.
\<close>

fun bedrock_role :: "message \<Rightarrow> string" where
  "bedrock_role (MDict r c) = (case r of None \<Rightarrow> ''user'' | Some x \<Rightarrow> x)"
| "bedrock_role (MObj r c cls rendering) = (case r of None \<Rightarrow> ''user'' | Some x \<Rightarrow> x)"

fun bedrock_content :: "message \<Rightarrow> content" where
  "bedrock_content (MDict r c) = (case c of None \<Rightarrow> CStr [] | Some x \<Rightarrow> x)"
| "bedrock_content (MObj r c cls rendering) = (case c of None \<Rightarrow> CStr rendering | Some x \<Rightarrow> x)"

text \<open>The \<open>for\<close> loop, with the list \<open>converted\<close> it appends to.\<close>

fun convert_messages_loop :: "message list \<Rightarrow> chat_message list \<Rightarrow> chat_message list" where
  "convert_messages_loop [] converted = converted"
| "convert_messages_loop (m # ms) converted =
     convert_messages_loop ms
       (converted @ [\<lparr>msg_role = bedrock_role m,
                      msg_content = join_list_content (bedrock_content m)\<rparr>])"

definition convert_messages :: "message list \<Rightarrow> chat_message list" where
  "convert_messages messages = convert_messages_loop messages []"

subsection \<open>The vendor's response body\<close>

text \<open>
  The value \<open>json.loads\<close> returns. An object is an association list whose first binding
  of a key is the one a lookup finds.
\<close>

datatype json =
    JNull
  | JBool bool
  | JInt int
  | JReal real
  | JStr string
  | JArr "json list"
  | JObj "(string \<times> json) list"

text \<open>\<open>x[key]\<close> with a string key: only a dict accepts it.\<close>

fun getitem_key :: "json \<Rightarrow> string \<Rightarrow> error + json" where
  "getitem_key (JObj kvs) k = (case map_of kvs k of None \<Rightarrow> Inl KeyError | Some v \<Rightarrow> Inr v)"
| "getitem_key JNull k = Inl TypeError"
| "getitem_key (JBool b) k = Inl TypeError"
| "getitem_key (JInt i) k = Inl TypeError"
| "getitem_key (JReal r) k = Inl TypeError"
| "getitem_key (JStr s) k = Inl TypeError"
| "getitem_key (JArr xs) k = Inl TypeError"

text \<open>
  \<open>x[0]\<close>: the first element of a list, the first character of a string; a dict parsed
  from JSON has string keys only, so the key \<open>0\<close> is missing.
\<close>

fun getitem_zero :: "json \<Rightarrow> error + json" where
  "getitem_zero (JArr []) = Inl IndexError"
| "getitem_zero (JArr (x # xs)) = Inr x"
| "getitem_zero (JStr []) = Inl IndexError"
| "getitem_zero (JStr (c # cs)) = Inr (JStr [c])"
| "getitem_zero (JObj kvs) = Inl KeyError"
| "getitem_zero JNull = Inl TypeError"
| "getitem_zero (JBool b) = Inl TypeError"
| "getitem_zero (JInt i) = Inl TypeError"
| "getitem_zero (JReal r) = Inl TypeError"

text \<open>\<open>x.get(key, default)\<close>: a method of dicts only.\<close>

fun dict_get :: "json \<Rightarrow> string \<Rightarrow> json \<Rightarrow> error + json" where
  "dict_get (JObj kvs) k dflt = Inr (case map_of kvs k of None \<Rightarrow> dflt | Some v \<Rightarrow> v)"
| "dict_get JNull k dflt = Inl AttributeError"
| "dict_get (JBool b) k dflt = Inl AttributeError"
| "dict_get (JInt i) k dflt = Inl AttributeError"
| "dict_get (JReal r) k dflt = Inl AttributeError"
| "dict_get (JStr s) k dflt = Inl AttributeError"
| "dict_get (JArr xs) k dflt = Inl AttributeError"

subsection \<open>\<open>create_chat_completion\<close> and \<open>acreate_chat_completion\<close>\<close>

record bedrock_client =
  model_id :: string
  aws_region :: string
  bedrock_temperature :: real
  max_tokens :: int

text \<open>The keyword overrides the code reads with \<open>kwargs.get\<close>; \<open>None\<close> is an absent key.\<close>

record bedrock_kwargs =
  kw_max_tokens :: "int option"
  kw_temperature :: "real option"

record bedrock_payload =
  anthropic_version :: string
  payload_max_tokens :: int
  payload_temperature :: real
  payload_messages :: "chat_message list"

text \<open>
  The vendor call \<open>invoke_model\<close> followed by reading and parsing the body: a
  deterministic backend is a function of the model id and the payload, which answers
  with a parsed body or raises.
\<close>

type_synonym bedrock_backend = "string \<Rightarrow> bedrock_payload \<Rightarrow> error + json"

text \<open>The one element of \<open>choices\<close> in the returned dict.\<close>

record chat_choice =
  choice_role :: string
  choice_content :: json
  choice_finish_reason :: json

text \<open>The request payload built from the instance defaults, the overrides and the messages.\<close>

definition bedrock_build_payload ::
  "bedrock_client \<Rightarrow> message list \<Rightarrow> bedrock_kwargs \<Rightarrow> bedrock_payload" where
  "bedrock_build_payload self messages kwargs =
     \<lparr>anthropic_version = ''bedrock-2023-05-31'',
      payload_max_tokens =
        (case kw_max_tokens kwargs of None \<Rightarrow> max_tokens self | Some v \<Rightarrow> v),
      payload_temperature =
        (case kw_temperature kwargs of None \<Rightarrow> bedrock_temperature self | Some v \<Rightarrow> v),
      payload_messages = convert_messages messages\<rparr>"

text \<open>\<open>body_json["content"][0]["text"]\<close>\<close>

definition first_block_text :: "json \<Rightarrow> error + json" where
  "first_block_text body_json =
     bind_err (getitem_key body_json ''content'') (\<lambda>blocks.
     bind_err (getitem_zero blocks) (\<lambda>block.
       getitem_key block ''text''))"

definition bedrock_create_chat_completion ::
  "bedrock_backend \<Rightarrow> bedrock_client \<Rightarrow> message list \<Rightarrow> bool \<Rightarrow> bedrock_kwargs
     \<Rightarrow> error + chat_choice list" where
  "bedrock_create_chat_completion invoke_model self messages stream kwargs =
     (if stream then Inl NotImplementedError
      else
        let payload = bedrock_build_payload self messages kwargs
        in bind_err (invoke_model (model_id self) payload) (\<lambda>body_json.
           bind_err (first_block_text body_json) (\<lambda>assistant_text.
           bind_err (dict_get body_json ''stop_reason'' (JStr ''stop'')) (\<lambda>finish_reason.
             Inr [\<lparr>choice_role = ''assistant'',
                   choice_content = assistant_text,
                   choice_finish_reason = finish_reason\<rparr>]))))"

text \<open>
  \<open>await loop.run_in_executor(None, f)\<close>: the worker runs the thunk and the awaiting
  caller receives what it returned or raised.
\<close>

definition run_in_executor :: "(unit \<Rightarrow> 'a) \<Rightarrow> 'a" where
  "run_in_executor f = f ()"

definition bedrock_acreate_chat_completion ::
  "bedrock_backend \<Rightarrow> bedrock_client \<Rightarrow> message list \<Rightarrow> bool \<Rightarrow> bedrock_kwargs
     \<Rightarrow> error + chat_choice list" where
  "bedrock_acreate_chat_completion invoke_model self messages stream kwargs =
     run_in_executor (\<lambda>_. bedrock_create_chat_completion invoke_model self messages stream kwargs)"

section \<open>Generative-SDK (Gemini) chat adapter\<close>

subsection \<open>\<open>_convert_messages_to_prompt\<close>\<close>

text \<open>The fixed first line of every prompt, as the bytes of its UTF-8 encoding.\<close>

definition language_instruction :: string where
  "language_instruction = ''system: '' @
     [
      CHR 0xE8, CHR 0xAB, CHR 0x8B, CHR 0xE4, CHR 0xBB, CHR 0xA5, CHR 0xE8, CHR 0x88,
      CHR 0x87, CHR 0xE4, CHR 0xBD, CHR 0xBF, CHR 0xE7, CHR 0x94, CHR 0xA8, CHR 0xE8,
      CHR 0x80, CHR 0x85, CHR 0xE8, CHR 0xBC, CHR 0xB8, CHR 0xE5, CHR 0x85, CHR 0xA5,
      CHR 0xE7, CHR 0x9B, CHR 0xB8, CHR 0xE5, CHR 0x90, CHR 0x8C, CHR 0xE7, CHR 0x9A,
      CHR 0x84, CHR 0xE8, CHR 0xAA, CHR 0x9E, CHR 0xE8, CHR 0xA8, CHR 0x80, CHR 0xE4,
      CHR 0xBD, CHR 0x9C, CHR 0xE7, CHR 0xAD, CHR 0x94, CHR 0xEF, CHR 0xBC, CHR 0x8C,
      CHR 0xE8, CHR 0x8B, CHR 0xA5, CHR 0xE4, CHR 0xBD, CHR 0xBF, CHR 0xE7, CHR 0x94,
      CHR 0xA8, CHR 0xE8, CHR 0x80, CHR 0x85, CHR 0xE4, CHR 0xBD, CHR 0xBF, CHR 0xE7,
      CHR 0x94, CHR 0xA8, CHR 0xE4, CHR 0xB8, CHR 0xAD, CHR 0xE6, CHR 0x96, CHR 0x87,
      CHR 0xE5, CHR 0x89, CHR 0x87, CHR 0xE5, CHR 0x9B, CHR 0x9E, CHR 0xE7, CHR 0xAD,
      CHR 0x94, CHR 0xE8, CHR 0xAB, CHR 0x8B, CHR 0xE5, CHR 0xAE, CHR 0x8C, CHR 0xE5,
      CHR 0x85, CHR 0xA8, CHR 0xE4, CHR 0xBD, CHR 0xBF, CHR 0xE7, CHR 0x94, CHR 0xA8,
      CHR 0xE4, CHR 0xB8, CHR 0xAD, CHR 0xE6, CHR 0x96, CHR 0x87, CHR 0xE3, CHR 0x80,
      CHR 0x82, CHR 0xE8, CHR 0x8B, CHR 0xA5, CHR 0xE9, CHR 0x9D, CHR 0x9E, CHR 0xE4,
      CHR 0xB8, CHR 0xAD, CHR 0xE6, CHR 0x96, CHR 0x87, CHR 0xE5, CHR 0x89, CHR 0x87,
      CHR 0xE5, CHR 0xB0, CHR 0x8D, CHR 0xE6, CHR 0x87, CHR 0x89, CHR 0xE4, CHR 0xBD,
      CHR 0xBF, CHR 0xE7, CHR 0x94, CHR 0xA8, CHR 0xE8, CHR 0x80, CHR 0x85, CHR 0xE8,
      CHR 0xAA, CHR 0x9E, CHR 0xE8, CHR 0xA8, CHR 0x80, CHR 0xE3, CHR 0x80, CHR 0x82
     ]"

definition lower_char :: "char \<Rightarrow> char" where
  "lower_char c =
     (let n = (of_char c :: nat) in if 65 \<le> n \<and> n \<le> 90 then char_of (n + 32) else c)"

text \<open>
  \<open>m.get("role", "user")\<close> for a dict, \<open>getattr(m, "role", m.__class__.__name__.lower())\<close>
  otherwise; the content as in the other adapter.
\<close>

fun gemini_role :: "message \<Rightarrow> string" where
  "gemini_role (MDict r c) = (case r of None \<Rightarrow> ''user'' | Some x \<Rightarrow> x)"
| "gemini_role (MObj r c cls rendering) = (case r of None \<Rightarrow> map lower_char cls | Some x \<Rightarrow> x)"

fun gemini_content :: "message \<Rightarrow> content" where
  "gemini_content (MDict r c) = (case c of None \<Rightarrow> CStr [] | Some x \<Rightarrow> x)"
| "gemini_content (MObj r c cls rendering) = (case c of None \<Rightarrow> CStr rendering | Some x \<Rightarrow> x)"

text \<open>What the f-string puts for \<open>{content}\<close>.\<close>

fun format_content :: "content \<Rightarrow> string" where
  "format_content (CStr s) = s"
| "format_content (CList ps) = join_str '' '' (map py_str_part ps)"
| "format_content (COther rendering) = rendering"

fun prompt_lines :: "message list \<Rightarrow> string list \<Rightarrow> string list" where
  "prompt_lines [] lines = lines"
| "prompt_lines (m # ms) lines =
     prompt_lines ms
       (lines @ [gemini_role m @ '': '' @ format_content (join_list_content (gemini_content m))])"

definition convert_messages_to_prompt :: "message list \<Rightarrow> string" where
  "convert_messages_to_prompt messages =
     join_str [CHR 0x0A] (prompt_lines messages [language_instruction])"

subsection \<open>\<open>create_chat_completion\<close> and \<open>acreate_chat_completion\<close>\<close>

record gemini_client =
  model_name :: string
  gemini_temperature :: real
  max_output_tokens :: int

record gemini_kwargs =
  kw_gen_temperature :: "real option"
  kw_max_output_tokens :: "int option"

record generation_kwargs =
  gen_temperature :: real
  gen_max_output_tokens :: int

record gemini_chunk =
  chunk_text :: string

record gemini_response =
  response_text :: string
  candidates :: "string list"

text \<open>
  The vendor model object \<open>self._model\<close>: \<open>generate_content(prompt, **kw)\<close> answers with
  a response whose candidates each carry a finish reason, and
  \<open>generate_content(prompt, stream=True, **kw)\<close> with a finite sequence of chunks.
\<close>

record gemini_model =
  generate_content :: "string \<Rightarrow> generation_kwargs \<Rightarrow> gemini_response"
  generate_content_stream :: "string \<Rightarrow> generation_kwargs \<Rightarrow> gemini_chunk list"

text \<open>One streamed fragment: the single element of its \<open>choices\<close>.\<close>

record stream_choice =
  delta_content :: "string option"
  choice_index :: int
  stream_finish_reason :: "string option"

record gemini_choice =
  gemini_choice_role :: string
  gemini_choice_content :: string
  gemini_choice_finish_reason :: string

text \<open>
  The function body contains \<open>yield\<close>, so a call returns a generator whatever \<open>stream\<close>
  is. The model of a generator is what exhausting it gives: the values yielded, in
  order, and the value of its \<open>return\<close> statement, if it ran one.
\<close>

record ('y, 'r) generator =
  yielded :: "'y list"
  returned :: "'r option"

text \<open>The loop over the vendor's chunks and the \<open>yield\<close> that follows it.\<close>

fun stream_fragments :: "gemini_chunk list \<Rightarrow> stream_choice list list" where
  "stream_fragments [] =
     [[\<lparr>delta_content = None, choice_index = 0, stream_finish_reason = Some ''stop''\<rparr>]]"
| "stream_fragments (chunk # rest) =
     [\<lparr>delta_content = Some (chunk_text chunk), choice_index = 0, stream_finish_reason = None\<rparr>]
       # stream_fragments rest"

definition gemini_create_chat_completion ::
  "gemini_model \<Rightarrow> gemini_client \<Rightarrow> message list \<Rightarrow> bool \<Rightarrow> gemini_kwargs
     \<Rightarrow> (stream_choice list, gemini_choice list) generator" where
  "gemini_create_chat_completion model self messages stream kwargs =
     (let prompt = convert_messages_to_prompt messages;
          generation = \<lparr>gen_temperature =
                          (case kw_gen_temperature kwargs of None \<Rightarrow> gemini_temperature self | Some v \<Rightarrow> v),
                        gen_max_output_tokens =
                          (case kw_max_output_tokens kwargs of None \<Rightarrow> max_output_tokens self | Some v \<Rightarrow> v)\<rparr>
      in if stream
         then \<lparr>yielded = stream_fragments (generate_content_stream model prompt generation),
               returned = None\<rparr>
         else
           let response = generate_content model prompt generation
           in \<lparr>yielded = [],
               returned = Some
                 [\<lparr>gemini_choice_role = ''assistant'',
                   gemini_choice_content = response_text response,
                   gemini_choice_finish_reason =
                     (case candidates response of [] \<Rightarrow> ''stop'' | c # cs \<Rightarrow> c)\<rparr>]\<rparr>)"


subsection \<open>Construction and \<open>_to_config\<close>\<close>

text \<open>Constructor arguments; \<open>None\<close> is an argument left out, which takes its default.\<close>

record gemini_init_args =
  arg_model :: "string option"
  arg_api_key :: "string option"
  arg_temperature :: "real option"
  arg_max_output_tokens :: "int option"

text \<open>
  \<open>__init__\<close> stores the three settings, raises when the SDK is not installed, and hands
  the key to the SDK's \<open>configure\<close>; the instance keeps no attribute for the key. The
  result is the instance together with the key the SDK was configured with.
\<close>

definition gemini_init :: "bool \<Rightarrow> gemini_init_args \<Rightarrow> error + (gemini_client \<times> string option)" where
  "gemini_init genai_installed args =
     (let self = \<lparr>model_name = (case arg_model args of None \<Rightarrow> ''gemini-2.0-flash'' | Some m \<Rightarrow> m),
                  gemini_temperature = (case arg_temperature args of None \<Rightarrow> 0 | Some t \<Rightarrow> t),
                  max_output_tokens = (case arg_max_output_tokens args of None \<Rightarrow> 1024 | Some n \<Rightarrow> n)\<rparr>
      in if \<not> genai_installed then Inl RuntimeError
         else Inr (self, arg_api_key args))"

record gemini_client_config =
  config_model :: string
  config_api_key :: "string option"
  config_temperature :: real
  config_max_output_tokens :: int

definition gemini_to_config :: "gemini_client \<Rightarrow> gemini_client_config" where
  "gemini_to_config self =
     \<lparr>config_model = model_name self,
      config_api_key = None,
      config_temperature = gemini_temperature self,
      config_max_output_tokens = max_output_tokens self\<rparr>"

section \<open>Interactive browser container launcher\<close>

subsection \<open>Hostname resolution\<close>

text \<open>
  The process environment: \<open>os.getenv(name)\<close> is \<open>None\<close> for a variable that is not set.
  Python's \<open>a or b\<close> is \<open>a\<close> when \<open>a\<close> is truthy (here: set and not the empty string)
  and \<open>b\<close> otherwise.
\<close>

type_synonym environ = "string \<Rightarrow> string option"

definition truthy :: "string option \<Rightarrow> bool" where
  "truthy v = (case v of None \<Rightarrow> False | Some s \<Rightarrow> s \<noteq> [])"

definition py_or :: "string option \<Rightarrow> string option \<Rightarrow> string option" where
  "py_or a b = (if truthy a then a else b)"

definition external_host_env :: "environ \<Rightarrow> string option" where
  "external_host_env getenv =
     py_or (py_or (py_or (getenv ''MUI_EXTERNAL_HOST'') (getenv ''PUBLIC_HOST''))
                  (getenv ''PUBLIC_IP''))
           (getenv ''HOST_IP'')"

text \<open>\<open>external_host_env or "127.0.0.1"\<close>\<close>

definition or_loopback :: "string option \<Rightarrow> string" where
  "or_loopback v = (case v of None \<Rightarrow> ''127.0.0.1'' | Some s \<Rightarrow> if s \<noteq> [] then s else ''127.0.0.1'')"

text \<open>\<open>f"magentic-ui-vnc-browser_{self._playwright_websocket_path}_{self._novnc_port}"\<close>\<close>

definition container_name :: "string \<Rightarrow> int \<Rightarrow> string" where
  "container_name token port = ''magentic-ui-vnc-browser_'' @ token @ ''_'' @ str_int port"

subsection \<open>The launcher and its constructor\<close>

record launcher =
  bind_dir :: string
  image :: string
  playwright_port :: int
  novnc_port :: int
  playwright_websocket_path :: string
  inside_docker :: bool
  network_name :: string
  hostname :: string
  docker_name :: string

text \<open>
  The keyword arguments of \<open>__init__\<close>: \<open>bind_dir\<close> is required, for the others \<open>None\<close>
  is an argument left out (for the websocket path also an explicit \<open>None\<close>).
\<close>

record launcher_args =
  arg_bind_dir :: string
  arg_image :: "string option"
  arg_playwright_port :: "int option"
  arg_playwright_websocket_path :: "string option"
  arg_novnc_port :: "int option"
  arg_inside_docker :: "bool option"
  arg_network_name :: "string option"

text \<open>
  \<open>__init__\<close>. The argument \<open>token_hex\<close> is what \<open>secrets.token_hex(16)\<close> returns when it
  is called, \<open>getenv\<close> the environment at the time of the call.
\<close>

definition vnc_init :: "environ \<Rightarrow> string \<Rightarrow> launcher_args \<Rightarrow> launcher" where
  "vnc_init getenv token_hex args =
     (let port_p = (case arg_playwright_port args of None \<Rightarrow> 37367 | Some p \<Rightarrow> p);
          port_n = (case arg_novnc_port args of None \<Rightarrow> 6080 | Some p \<Rightarrow> p);
          token = (case arg_playwright_websocket_path args of
                     None \<Rightarrow> token_hex
                   | Some p \<Rightarrow> if p \<noteq> [] then p else token_hex);
          inside = (case arg_inside_docker args of None \<Rightarrow> True | Some b \<Rightarrow> b)
      in \<lparr>bind_dir = arg_bind_dir args,
          image = (case arg_image args of None \<Rightarrow> ''magentic-ui-vnc-browser'' | Some i \<Rightarrow> i),
          playwright_port = port_p,
          novnc_port = port_n,
          playwright_websocket_path = token,
          inside_docker = inside,
          network_name = (case arg_network_name args of None \<Rightarrow> ''my-network'' | Some n \<Rightarrow> n),
          hostname = (if inside then container_name token port_n
                      else or_loopback (external_host_env getenv)),
          docker_name = container_name token port_n\<rparr>)"

text \<open>
  A call of the class with keyword arguments. The parameters of \<open>__init__\<close> are
  keyword-only and there is no \<open>**kwargs\<close>, so a keyword that names none of them raises
  \<open>TypeError\<close> before the body runs; \<open>unexpected\<close> lists such keywords with their values.
\<close>

definition vnc_construct ::
  "environ \<Rightarrow> string \<Rightarrow> launcher_args \<Rightarrow> (string \<times> string) list \<Rightarrow> error + launcher" where
  "vnc_construct getenv token_hex args unexpected =
     (if unexpected \<noteq> [] then Inl TypeError else Inr (vnc_init getenv token_hex args))"

subsection \<open>Port regeneration and the two addresses\<close>

text \<open>
  \<open>_generate_new_browser_address\<close>. The arguments \<open>probed_playwright\<close> and \<open>probed_novnc\<close>
  are the ports the operating system gives to the two sockets that
  \<open>_get_available_port\<close> binds to port 0, in the order of the two calls.
\<close>

definition generate_new_browser_address :: "environ \<Rightarrow> int \<Rightarrow> int \<Rightarrow> launcher \<Rightarrow> launcher" where
  "generate_new_browser_address getenv probed_playwright probed_novnc self =
     (let self1 = self\<lparr>playwright_port := probed_playwright\<rparr>;
          self2 = self1\<lparr>novnc_port := probed_novnc\<rparr>;
          self3 = self2\<lparr>hostname :=
                    (if inside_docker self2
                     then container_name (playwright_websocket_path self2) (novnc_port self2)
                     else or_loopback (external_host_env getenv))\<rparr>
      in self3\<lparr>docker_name :=
                  container_name (playwright_websocket_path self3) (novnc_port self3)\<rparr>)"

definition browser_address :: "launcher \<Rightarrow> string" where
  "browser_address self =
     ''ws://'' @ hostname self @ '':'' @ str_int (playwright_port self) @ ''/''
       @ playwright_websocket_path self"

definition vnc_address :: "launcher \<Rightarrow> string" where
  "vnc_address self =
     ''http://'' @ hostname self @ '':'' @ str_int (novnc_port self) @ ''/vnc.html''"

subsection \<open>Configuration round trip\<close>




section \<open>Concrete vendor backends for the examples\<close>

text \<open>
  A managed-endpoint backend whose response body carries the text of a first content
  block and no \<open>stop_reason\<close> key, and one whose body has no content block at all.
\<close>

definition backend_without_stop_reason :: bedrock_backend where
  "backend_without_stop_reason model payload =
     Inr (JObj [(''content'', JArr [JObj [(''type'', JStr ''text''), (''text'', JStr ''Hello'')]])])"

definition backend_without_content :: bedrock_backend where
  "backend_without_content model payload =
     Inr (JObj [(''content'', JArr []), (''stop_reason'', JStr ''end_turn'')])"

text \<open>A backend whose first content block has no \<open>text\<close> key.\<close>

definition backend_without_text :: bedrock_backend where
  "backend_without_text model payload =
     Inr (JObj [(''content'', JArr [JObj [(''type'', JStr ''text'')]]),
                (''stop_reason'', JStr ''end_turn'')])"

text \<open>A generative-SDK model object that streams the two chunks \<open>Hel\<close> and \<open>lo\<close>.\<close>

definition two_chunk_model :: gemini_model where
  "two_chunk_model =
     \<lparr>generate_content = (\<lambda>prompt kw. \<lparr>response_text = ''Hello'', candidates = [''STOP'']\<rparr>),
      generate_content_stream = (\<lambda>prompt kw. [\<lparr>chunk_text = ''Hel''\<rparr>, \<lparr>chunk_text = ''lo''\<rparr>])\<rparr>"

section \<open>Properties\<close>

subsection \<open>Helper facts\<close>

lemma bind_err_Inr [simp]: "bind_err (Inr x) f = f x"
  by (simp add: bind_err_def)

lemma bind_err_Inl [simp]: "bind_err (Inl e) f = Inl e"
  by (simp add: bind_err_def)

lemma str_int_6080: "str_int 6080 = ''6080''"
  by (simp add: str_int_def str_nat.simps digit_char_def)

lemma str_int_37367: "str_int 37367 = ''37367''"
  by (simp add: str_int_def str_nat.simps digit_char_def)

subsection \<open>Usage counters\<close>

lemma bedrock_update_usage_set:
  "actual_usage_attr s = Some a \<Longrightarrow> total_usage_attr s = Some t \<Longrightarrow>
   bedrock_update_usage s d =
     Inr (s\<lparr>actual_usage_attr := Some \<lparr>prompt_tokens = prompt_tokens a + prompt_tokens d,
                                        completion_tokens = completion_tokens a + completion_tokens d\<rparr>,
            total_usage_attr := Some \<lparr>prompt_tokens = prompt_tokens t + prompt_tokens d,
                                       completion_tokens = completion_tokens t + completion_tokens d\<rparr>\<rparr>)"
  by (simp add: bedrock_update_usage_def getattr_usage_def Let_def)

lemma gemini_update_usage_eq: "gemini_update_usage = bedrock_update_usage"
  by (intro ext) (simp add: gemini_update_usage_def bedrock_update_usage_def)

lemma bedrock_update_usage_fresh:
  "bedrock_update_usage fresh_usage d =
     Inr \<lparr>actual_usage_attr = Some \<lparr>prompt_tokens = prompt_tokens d, completion_tokens = completion_tokens d\<rparr>,
          total_usage_attr = Some \<lparr>prompt_tokens = prompt_tokens d, completion_tokens = completion_tokens d\<rparr>\<rparr>"
  by (simp add: bedrock_update_usage_def getattr_usage_def fresh_usage_def Let_def)

lemma run_updates_set:
  "actual_usage_attr s = Some a \<Longrightarrow> total_usage_attr s = Some t \<Longrightarrow>
   run_updates bedrock_update_usage s ds =
     Inr (s\<lparr>actual_usage_attr := Some \<lparr>prompt_tokens = prompt_tokens a + sum_list (map prompt_tokens ds),
                                        completion_tokens = completion_tokens a + sum_list (map completion_tokens ds)\<rparr>,
            total_usage_attr := Some \<lparr>prompt_tokens = prompt_tokens t + sum_list (map prompt_tokens ds),
                                       completion_tokens = completion_tokens t + sum_list (map completion_tokens ds)\<rparr>\<rparr>)"
proof (induction ds arbitrary: s a t)
  case Nil
  then show ?case by simp
next
  case (Cons d ds)
  show ?case
    by (simp add: bedrock_update_usage_set [OF Cons.prems] Cons.IH add.assoc)
qed

lemma run_updates_fresh:
  "run_updates bedrock_update_usage fresh_usage (d # ds) =
     Inr \<lparr>actual_usage_attr = Some (sum_usage (d # ds)), total_usage_attr = Some (sum_usage (d # ds))\<rparr>"
  by (simp add: bedrock_update_usage_fresh run_updates_set sum_usage_def)

text \<open>
  Claim C1, as amended. After a run of one or more successful \<open>create\<close> calls on a fresh
  adapter instance (Bedrock or Gemini), the total counters equal the sum of the per-call
  estimates over all calls, and the actual counters equal that same cumulative sum:
  \<open>_update_usage\<close> adds every delta to both of them.
\<close>

theorem usage_counters_both_cumulative:
  "run_updates bedrock_update_usage fresh_usage (d # ds) =
     Inr \<lparr>actual_usage_attr = Some (sum_usage (d # ds)), total_usage_attr = Some (sum_usage (d # ds))\<rparr>
   \<and> run_updates gemini_update_usage fresh_usage (d # ds) =
     Inr \<lparr>actual_usage_attr = Some (sum_usage (d # ds)), total_usage_attr = Some (sum_usage (d # ds))\<rparr>"
  by (simp only: gemini_update_usage_eq run_updates_fresh)

theorem usage_counters_both_cumulative_witness:
  "run_updates gemini_update_usage fresh_usage
     [\<lparr>prompt_tokens = 3, completion_tokens = 2\<rparr>, \<lparr>prompt_tokens = 5, completion_tokens = 7\<rparr>] =
     Inr \<lparr>actual_usage_attr = Some \<lparr>prompt_tokens = 8, completion_tokens = 9\<rparr>,
          total_usage_attr = Some \<lparr>prompt_tokens = 8, completion_tokens = 9\<rparr>\<rparr>"
  using usage_counters_both_cumulative
    [of "\<lparr>prompt_tokens = 3, completion_tokens = 2\<rparr>" "[\<lparr>prompt_tokens = 5, completion_tokens = 7\<rparr>]"]
  by (simp add: sum_usage_def)

text \<open>
  Claim C1 as stated fails: after two calls with the estimates (3, 2) and (5, 7) the
  actual counters are (8, 9), not the last call's (5, 7).
\<close>

theorem actual_usage_last_delta_counterexample:
  "run_updates bedrock_update_usage fresh_usage
     [\<lparr>prompt_tokens = 3, completion_tokens = 2\<rparr>, \<lparr>prompt_tokens = 5, completion_tokens = 7\<rparr>] =
     Inr \<lparr>actual_usage_attr = Some \<lparr>prompt_tokens = 8, completion_tokens = 9\<rparr>,
          total_usage_attr = Some \<lparr>prompt_tokens = 8, completion_tokens = 9\<rparr>\<rparr>
   \<and> Some \<lparr>prompt_tokens = 8, completion_tokens = 9\<rparr> \<noteq> Some \<lparr>prompt_tokens = 5, completion_tokens = (7::int)\<rparr>"
  by (simp add: bedrock_update_usage_def getattr_usage_def fresh_usage_def Let_def)

subsection \<open>Message conversion of the managed-endpoint adapter\<close>

lemma convert_messages_loop_map:
  "convert_messages_loop ms acc =
     acc @ map (\<lambda>m. \<lparr>msg_role = bedrock_role m, msg_content = join_list_content (bedrock_content m)\<rparr>) ms"
  by (induction ms arbitrary: acc) simp_all

lemma convert_messages_map:
  "convert_messages ms =
     map (\<lambda>m. \<lparr>msg_role = bedrock_role m, msg_content = join_list_content (bedrock_content m)\<rparr>) ms"
  by (simp add: convert_messages_def convert_messages_loop_map)

text \<open>
  Claim C2. The message list of the request payload has one entry per input message, in
  the input's order; each entry carries the input's role and content (the defaults of
  \<open>_convert_messages\<close> where the input has none), and a list-valued content is replaced
  by its elements' strings joined with single spaces.
\<close>

theorem payload_messages_one_per_input:
  "length (payload_messages (bedrock_build_payload self ms kwargs)) = length ms
   \<and> (\<forall>i < length ms.
        msg_role (payload_messages (bedrock_build_payload self ms kwargs) ! i) = bedrock_role (ms ! i)
      \<and> msg_content (payload_messages (bedrock_build_payload self ms kwargs) ! i)
          = join_list_content (bedrock_content (ms ! i)))
   \<and> (\<forall>i < length ms. \<forall>r c.
        ms ! i = MDict (Some r) (Some c) \<longrightarrow>
        payload_messages (bedrock_build_payload self ms kwargs) ! i =
          \<lparr>msg_role = r,
           msg_content = (case c of CList ps \<Rightarrow> CStr (join_str '' '' (map py_str_part ps))
                          | CStr s \<Rightarrow> CStr s | COther v \<Rightarrow> COther v)\<rparr>)
   \<and> (\<forall>i < length ms. \<forall>r c cls rendering.
        ms ! i = MObj (Some r) (Some c) cls rendering \<longrightarrow>
        payload_messages (bedrock_build_payload self ms kwargs) ! i =
          \<lparr>msg_role = r,
           msg_content = (case c of CList ps \<Rightarrow> CStr (join_str '' '' (map py_str_part ps))
                          | CStr s \<Rightarrow> CStr s | COther v \<Rightarrow> COther v)\<rparr>)"
  by (auto simp: bedrock_build_payload_def convert_messages_map split: content.splits)

theorem payload_messages_one_per_input_witness:
  "payload_messages (bedrock_build_payload
       \<lparr>model_id = ''m'', aws_region = ''us-west-2'', bedrock_temperature = 0, max_tokens = 1024\<rparr>
       [MDict (Some ''system'') (Some (CStr ''be brief'')),
        MDict (Some ''user'') (Some (CList [PartStr ''hello'', PartStr ''world'']))]
       \<lparr>kw_max_tokens = None, kw_temperature = None\<rparr>) ! 1
     = \<lparr>msg_role = ''user'', msg_content = CStr ''hello world''\<rparr>"
proof -
  let ?ms = "[MDict (Some ''system'') (Some (CStr ''be brief'')),
              MDict (Some ''user'') (Some (CList [PartStr ''hello'', PartStr ''world'']))]"
  have len: "(1::nat) < length ?ms" by simp
  have at: "?ms ! 1 = MDict (Some ''user'') (Some (CList [PartStr ''hello'', PartStr ''world'']))"
    by simp
  from payload_messages_one_per_input
    [of "\<lparr>model_id = ''m'', aws_region = ''us-west-2'', bedrock_temperature = 0, max_tokens = 1024\<rparr>"
        ?ms "\<lparr>kw_max_tokens = None, kw_temperature = None\<rparr>"]
  have "\<forall>i < length ?ms. \<forall>r c.
        ?ms ! i = MDict (Some r) (Some c) \<longrightarrow>
        payload_messages (bedrock_build_payload
          \<lparr>model_id = ''m'', aws_region = ''us-west-2'', bedrock_temperature = 0, max_tokens = 1024\<rparr>
          ?ms \<lparr>kw_max_tokens = None, kw_temperature = None\<rparr>) ! i =
          \<lparr>msg_role = r,
           msg_content = (case c of CList ps \<Rightarrow> CStr (join_str '' '' (map py_str_part ps))
                          | CStr s \<Rightarrow> CStr s | COther v \<Rightarrow> COther v)\<rparr>"
    by blast
  from this len at show ?thesis by simp
qed

subsection \<open>Blocking and non-blocking entry points\<close>


subsection \<open>Streaming mode of the generative-SDK adapter\<close>

lemma length_stream_fragments: "length (stream_fragments chunks) = Suc (length chunks)"
  by (induction chunks) simp_all

lemma stream_fragments_append:
  "stream_fragments chunks =
     map (\<lambda>c. [\<lparr>delta_content = Some (chunk_text c), choice_index = 0, stream_finish_reason = None\<rparr>]) chunks
     @ [[\<lparr>delta_content = None, choice_index = 0, stream_finish_reason = Some ''stop''\<rparr>]]"
  by (induction chunks) simp_all

lemma stream_fragments_nth:
  "i < length chunks \<Longrightarrow>
   stream_fragments chunks ! i =
     [\<lparr>delta_content = Some (chunk_text (chunks ! i)), choice_index = 0, stream_finish_reason = None\<rparr>]"
  by (simp add: stream_fragments_append nth_append)

lemma stream_fragments_terminal:
  "stream_fragments chunks ! length chunks =
     [\<lparr>delta_content = None, choice_index = 0, stream_finish_reason = Some ''stop''\<rparr>]"
  by (simp add: stream_fragments_append nth_append)

lemma stream_fragments_filter:
  "filter (\<lambda>fragment. map stream_finish_reason fragment \<noteq> [None]) (stream_fragments chunks) =
     [[\<lparr>delta_content = None, choice_index = 0, stream_finish_reason = Some ''stop''\<rparr>]]"
  by (induction chunks) simp_all

text \<open>
  Claim C4. In streaming mode the generator yields one fragment per vendor chunk, in the
  vendor's order, each with the chunk's text and a null finish reason, and then exactly
  one terminal fragment whose finish reason is \<open>stop\<close>; nothing follows it, and it is the
  only fragment with a finish reason.
\<close>

theorem gemini_stream_fragments_then_terminal:
  assumes "ys = yielded (gemini_create_chat_completion model self messages True kwargs)"
    and "chunks = generate_content_stream model (convert_messages_to_prompt messages)
           \<lparr>gen_temperature =
              (case kw_gen_temperature kwargs of None \<Rightarrow> gemini_temperature self | Some v \<Rightarrow> v),
            gen_max_output_tokens =
              (case kw_max_output_tokens kwargs of None \<Rightarrow> max_output_tokens self | Some v \<Rightarrow> v)\<rparr>"
  shows "length ys = length chunks + 1
    \<and> (\<forall>i < length chunks.
          ys ! i = [\<lparr>delta_content = Some (chunk_text (chunks ! i)), choice_index = 0,
                     stream_finish_reason = None\<rparr>])
    \<and> ys ! length chunks =
          [\<lparr>delta_content = None, choice_index = 0, stream_finish_reason = Some ''stop''\<rparr>]
    \<and> filter (\<lambda>fragment. map stream_finish_reason fragment \<noteq> [None]) ys =
          [[\<lparr>delta_content = None, choice_index = 0, stream_finish_reason = Some ''stop''\<rparr>]]"
proof -
  have ys: "ys = stream_fragments chunks"
    using assms by (simp add: gemini_create_chat_completion_def Let_def)
  show ?thesis
    unfolding ys
    by (simp add: length_stream_fragments stream_fragments_nth stream_fragments_terminal
        stream_fragments_filter)
qed

text \<open>The vendor streams \<open>Hel\<close>, \<open>lo\<close>: the third fragment is the terminal one.\<close>

theorem gemini_stream_fragments_then_terminal_witness:
  "yielded (gemini_create_chat_completion
      two_chunk_model
      \<lparr>model_name = ''gemini-2.0-flash'', gemini_temperature = 0, max_output_tokens = 1024\<rparr>
      [MDict (Some ''user'') (Some (CStr ''hi''))] True
      \<lparr>kw_gen_temperature = None, kw_max_output_tokens = None\<rparr>) ! 2
    = [\<lparr>delta_content = None, choice_index = 0, stream_finish_reason = Some ''stop''\<rparr>]"
  using gemini_stream_fragments_then_terminal
    [OF refl refl,
     of two_chunk_model
        "\<lparr>model_name = ''gemini-2.0-flash'', gemini_temperature = 0, max_output_tokens = 1024\<rparr>"
        "[MDict (Some ''user'') (Some (CStr ''hi''))]"
        "\<lparr>kw_gen_temperature = None, kw_max_output_tokens = None\<rparr>"]
  by (simp add: numeral_2_eq_2 two_chunk_model_def)

subsection \<open>Hostname and addresses of the browser launcher\<close>

lemma external_host_env_mui:
  "getenv ''MUI_EXTERNAL_HOST'' = Some h \<Longrightarrow> h \<noteq> [] \<Longrightarrow> or_loopback (external_host_env getenv) = h"
  by (simp add: external_host_env_def py_or_def truthy_def or_loopback_def)

text \<open>
  Claim C5. With \<open>inside_docker=True\<close> the hostname is
  \<open>magentic-ui-vnc-browser_<token>_<viewer port>\<close> whatever the environment holds; with
  \<open>inside_docker=False\<close> and \<open>MUI_EXTERNAL_HOST=example.com\<close> the viewer address is
  \<open>http://example.com:<novnc_port>/vnc.html\<close> and the browser address is
  \<open>ws://example.com:<playwright_port>/<token>\<close>.
\<close>

theorem hostname_and_addresses:
  "(inside_docker (vnc_init getenv token_hex args) \<longrightarrow>
      hostname (vnc_init getenv token_hex args) =
        ''magentic-ui-vnc-browser_'' @ playwright_websocket_path (vnc_init getenv token_hex args)
          @ ''_'' @ str_int (novnc_port (vnc_init getenv token_hex args))
      \<and> hostname (vnc_init getenv' token_hex args) = hostname (vnc_init getenv token_hex args))
   \<and> (\<not> inside_docker (vnc_init getenv token_hex args)
        \<and> getenv ''MUI_EXTERNAL_HOST'' = Some ''example.com'' \<longrightarrow>
      vnc_address (vnc_init getenv token_hex args) =
        ''http://example.com:'' @ str_int (novnc_port (vnc_init getenv token_hex args)) @ ''/vnc.html''
      \<and> browser_address (vnc_init getenv token_hex args) =
        ''ws://example.com:'' @ str_int (playwright_port (vnc_init getenv token_hex args)) @ ''/''
          @ playwright_websocket_path (vnc_init getenv token_hex args))"
proof (intro conjI impI)
  assume "inside_docker (vnc_init getenv token_hex args)"
  then show "hostname (vnc_init getenv token_hex args) =
        ''magentic-ui-vnc-browser_'' @ playwright_websocket_path (vnc_init getenv token_hex args)
          @ ''_'' @ str_int (novnc_port (vnc_init getenv token_hex args))"
    by (simp add: vnc_init_def Let_def container_name_def)
next
  assume "inside_docker (vnc_init getenv token_hex args)"
  then show "hostname (vnc_init getenv' token_hex args) = hostname (vnc_init getenv token_hex args)"
    by (simp add: vnc_init_def Let_def)
next
  assume a: "\<not> inside_docker (vnc_init getenv token_hex args)
        \<and> getenv ''MUI_EXTERNAL_HOST'' = Some ''example.com''"
  then have h: "hostname (vnc_init getenv token_hex args) = ''example.com''"
    using external_host_env_mui [of getenv "''example.com''"]
    by (simp add: vnc_init_def Let_def)
  show "vnc_address (vnc_init getenv token_hex args) =
        ''http://example.com:'' @ str_int (novnc_port (vnc_init getenv token_hex args)) @ ''/vnc.html''"
    by (simp add: vnc_address_def h)
  show "browser_address (vnc_init getenv token_hex args) =
        ''ws://example.com:'' @ str_int (playwright_port (vnc_init getenv token_hex args)) @ ''/''
          @ playwright_websocket_path (vnc_init getenv token_hex args)"
    by (simp add: browser_address_def h)
qed

text \<open>Both cases of claim C5 at the default ports.\<close>

theorem hostname_and_addresses_witness:
  "hostname (vnc_init Map.empty ''c0ffee''
      \<lparr>arg_bind_dir = ''/tmp/work'', arg_image = None, arg_playwright_port = None,
       arg_playwright_websocket_path = None, arg_novnc_port = None,
       arg_inside_docker = None, arg_network_name = None\<rparr>)
     = ''magentic-ui-vnc-browser_c0ffee_6080''
   \<and> vnc_address (vnc_init [''MUI_EXTERNAL_HOST'' \<mapsto> ''example.com''] ''c0ffee''
      \<lparr>arg_bind_dir = ''/tmp/work'', arg_image = None, arg_playwright_port = None,
       arg_playwright_websocket_path = Some ''tok'', arg_novnc_port = None,
       arg_inside_docker = Some False, arg_network_name = None\<rparr>)
     = ''http://example.com:6080/vnc.html''
   \<and> browser_address (vnc_init [''MUI_EXTERNAL_HOST'' \<mapsto> ''example.com''] ''c0ffee''
      \<lparr>arg_bind_dir = ''/tmp/work'', arg_image = None, arg_playwright_port = None,
       arg_playwright_websocket_path = Some ''tok'', arg_novnc_port = None,
       arg_inside_docker = Some False, arg_network_name = None\<rparr>)
     = ''ws://example.com:37367/tok''"
proof -
  let ?inside = "\<lparr>arg_bind_dir = ''/tmp/work'', arg_image = None, arg_playwright_port = None,
       arg_playwright_websocket_path = None, arg_novnc_port = None,
       arg_inside_docker = None, arg_network_name = None\<rparr>"
  let ?outside = "\<lparr>arg_bind_dir = ''/tmp/work'', arg_image = None, arg_playwright_port = None,
       arg_playwright_websocket_path = Some ''tok'', arg_novnc_port = None,
       arg_inside_docker = Some False, arg_network_name = None\<rparr>"
  let ?env = "[''MUI_EXTERNAL_HOST'' \<mapsto> ''example.com'']"
  have i: "inside_docker (vnc_init Map.empty ''c0ffee'' ?inside)"
    by (simp add: vnc_init_def Let_def)
  have o: "\<not> inside_docker (vnc_init ?env ''c0ffee'' ?outside)
           \<and> ?env ''MUI_EXTERNAL_HOST'' = Some ''example.com''"
    by (simp add: vnc_init_def Let_def)
  have pi: "playwright_websocket_path (vnc_init Map.empty ''c0ffee'' ?inside) = ''c0ffee''"
    "novnc_port (vnc_init Map.empty ''c0ffee'' ?inside) = 6080"
    by (simp_all add: vnc_init_def Let_def)
  have po: "playwright_websocket_path (vnc_init ?env ''c0ffee'' ?outside) = ''tok''"
    "novnc_port (vnc_init ?env ''c0ffee'' ?outside) = 6080"
    "playwright_port (vnc_init ?env ''c0ffee'' ?outside) = 37367"
    by (simp_all add: vnc_init_def Let_def)
  from hostname_and_addresses [of Map.empty "''c0ffee''" ?inside Map.empty] i
  have 1: "hostname (vnc_init Map.empty ''c0ffee'' ?inside) = ''magentic-ui-vnc-browser_c0ffee_6080''"
    by (simp add: pi str_int_6080)
  from hostname_and_addresses [of ?env "''c0ffee''" ?outside Map.empty] o
  have 2: "vnc_address (vnc_init ?env ''c0ffee'' ?outside) = ''http://example.com:6080/vnc.html''
     \<and> browser_address (vnc_init ?env ''c0ffee'' ?outside) = ''ws://example.com:37367/tok''"
    by (simp add: po str_int_6080 str_int_37367)
  from 1 2 show ?thesis by simp
qed

subsection \<open>Port regeneration\<close>

text \<open>
  Claim C6. Port regeneration sets \<open>playwright_port\<close> and \<open>novnc_port\<close> to the two newly
  probed ports, recomputes the hostname and the container name from the new viewer port,
  so that both addresses are built from the new ports, and leaves the websocket path
  token, \<open>bind_dir\<close>, \<open>image\<close>, \<open>inside_docker\<close> and \<open>network_name\<close> unchanged.
\<close>

theorem regenerate_ports_frame:
  "playwright_port (generate_new_browser_address getenv p n b) = p
   \<and> novnc_port (generate_new_browser_address getenv p n b) = n
   \<and> playwright_websocket_path (generate_new_browser_address getenv p n b) = playwright_websocket_path b
   \<and> bind_dir (generate_new_browser_address getenv p n b) = bind_dir b
   \<and> image (generate_new_browser_address getenv p n b) = image b
   \<and> inside_docker (generate_new_browser_address getenv p n b) = inside_docker b
   \<and> network_name (generate_new_browser_address getenv p n b) = network_name b
   \<and> hostname (generate_new_browser_address getenv p n b) =
        (if inside_docker b
         then ''magentic-ui-vnc-browser_'' @ playwright_websocket_path b @ ''_'' @ str_int n
         else or_loopback (external_host_env getenv))
   \<and> docker_name (generate_new_browser_address getenv p n b) =
        ''magentic-ui-vnc-browser_'' @ playwright_websocket_path b @ ''_'' @ str_int n
   \<and> browser_address (generate_new_browser_address getenv p n b) =
        ''ws://'' @ hostname (generate_new_browser_address getenv p n b) @ '':'' @ str_int p
          @ ''/'' @ playwright_websocket_path b
   \<and> vnc_address (generate_new_browser_address getenv p n b) =
        ''http://'' @ hostname (generate_new_browser_address getenv p n b) @ '':'' @ str_int n
          @ ''/vnc.html''"
  by (simp add: generate_new_browser_address_def Let_def container_name_def
      browser_address_def vnc_address_def)

text \<open>Regeneration from the ports 1 and 2 to the probed ports 37367 and 6080.\<close>

theorem regenerate_ports_frame_witness:
  "browser_address (generate_new_browser_address Map.empty 37367 6080
      (vnc_init Map.empty ''c0ffee''
        \<lparr>arg_bind_dir = ''/tmp/work'', arg_image = None, arg_playwright_port = Some 1,
         arg_playwright_websocket_path = None, arg_novnc_port = Some 2,
         arg_inside_docker = None, arg_network_name = None\<rparr>))
     = ''ws://magentic-ui-vnc-browser_c0ffee_6080:37367/c0ffee''
   \<and> vnc_address (generate_new_browser_address Map.empty 37367 6080
      (vnc_init Map.empty ''c0ffee''
        \<lparr>arg_bind_dir = ''/tmp/work'', arg_image = None, arg_playwright_port = Some 1,
         arg_playwright_websocket_path = None, arg_novnc_port = Some 2,
         arg_inside_docker = None, arg_network_name = None\<rparr>))
     = ''http://magentic-ui-vnc-browser_c0ffee_6080:6080/vnc.html''"
proof -
  let ?b = "vnc_init Map.empty ''c0ffee''
        \<lparr>arg_bind_dir = ''/tmp/work'', arg_image = None, arg_playwright_port = Some 1,
         arg_playwright_websocket_path = None, arg_novnc_port = Some 2,
         arg_inside_docker = None, arg_network_name = None\<rparr>"
  have b: "inside_docker ?b" "playwright_websocket_path ?b = ''c0ffee''"
    by (simp_all add: vnc_init_def Let_def)
  from regenerate_ports_frame [of Map.empty 37367 6080 ?b] show ?thesis
    by (simp add: b str_int_6080 str_int_37367)
qed

subsection \<open>Hostname resolution outside the enclosing network\<close>

lemma external_host_env_priority:
  "external_host_env getenv =
     (if truthy (getenv ''MUI_EXTERNAL_HOST'') then getenv ''MUI_EXTERNAL_HOST''
      else if truthy (getenv ''PUBLIC_HOST'') then getenv ''PUBLIC_HOST''
      else if truthy (getenv ''PUBLIC_IP'') then getenv ''PUBLIC_IP''
      else getenv ''HOST_IP'')"
  by (simp add: external_host_env_def py_or_def)

lemma hostname_outside_docker_from_environment:
  "vnc_construct getenv token_hex args unexpected = Inr b \<Longrightarrow> \<not> inside_docker b \<Longrightarrow>
   hostname b = or_loopback (external_host_env getenv)"
  by (auto simp: vnc_construct_def vnc_init_def Let_def split: if_splits)

text \<open>
  Claim C7. The constructor has no external-hostname parameter: a call that passes
  \<open>external_host\<close> raises \<open>TypeError\<close>, and with \<open>inside_docker=False\<close> the hostname comes
  from the environment chain (here \<open>MUI_EXTERNAL_HOST\<close>), never from an argument.
\<close>

theorem explicit_external_host_rejected:
  "vnc_construct [''MUI_EXTERNAL_HOST'' \<mapsto> ''env.example.org''] ''c0ffee''
     \<lparr>arg_bind_dir = ''/tmp/work'', arg_image = None, arg_playwright_port = None,
      arg_playwright_websocket_path = None, arg_novnc_port = None,
      arg_inside_docker = Some False, arg_network_name = None\<rparr>
     [(''external_host'', ''explicit.example.org'')]
   = Inl TypeError
   \<and> hostname (vnc_init [''MUI_EXTERNAL_HOST'' \<mapsto> ''env.example.org''] ''c0ffee''
     \<lparr>arg_bind_dir = ''/tmp/work'', arg_image = None, arg_playwright_port = None,
      arg_playwright_websocket_path = None, arg_novnc_port = None,
      arg_inside_docker = Some False, arg_network_name = None\<rparr>)
   = ''env.example.org''"
  by (simp add: vnc_construct_def vnc_init_def Let_def external_host_env_def py_or_def
      truthy_def or_loopback_def)

subsection \<open>Response parsing of the managed-endpoint adapter\<close>

lemma first_block_text_Inr_iff:
  "first_block_text body = Inr t \<longleftrightarrow>
     (\<exists>kvs blk rest. body = JObj kvs
        \<and> map_of kvs ''content'' = Some (JArr (JObj blk # rest))
        \<and> map_of blk ''text'' = Some t)"
proof (cases body)
  case (JObj kvs)
  show ?thesis
  proof (cases "map_of kvs ''content''")
    case None
    with JObj show ?thesis by (simp add: first_block_text_def)
  next
    case (Some c)
    show ?thesis
    proof (cases c)
      case (JArr xs)
      show ?thesis
      proof (cases xs)
        case Nil
        with JObj Some JArr show ?thesis by (simp add: first_block_text_def)
      next
        case (Cons x rest)
        with JObj Some JArr show ?thesis
          by (cases x) (auto simp: first_block_text_def split: option.splits)
      qed
    next
      case (JStr str)
      with JObj Some show ?thesis
        by (cases str) (simp_all add: first_block_text_def)
    qed (use JObj Some in \<open>simp_all add: first_block_text_def\<close>)
  qed
qed (simp_all add: first_block_text_def)

lemma create_Inr_text:
  assumes "invoke_model (model_id self) (bedrock_build_payload self messages kwargs) = Inr body"
    and "bedrock_create_chat_completion invoke_model self messages False kwargs = Inr r"
  shows "\<exists>t. first_block_text body = Inr t"
  using assms
  by (cases "first_block_text body") (simp_all add: bedrock_create_chat_completion_def Let_def)

text \<open>
  Claim C8, as amended. When the vendor answers with a body, \<open>create_chat_completion\<close>
  raises \<open>TypeError\<close> for a body that is not an object, \<open>KeyError\<close> for one without the
  key \<open>content\<close>, \<open>IndexError\<close> for an empty \<open>content\<close> list and \<open>KeyError\<close> for a first
  block without the key \<open>text\<close>, substituting no content. It returns only for a body
  whose \<open>content\<close> is a list that starts with an object holding \<open>text\<close>; the message
  content is then that text, and the finish reason is the body's \<open>stop_reason\<close> when the
  key is present and the default \<open>stop\<close> when it is absent.
\<close>

theorem bedrock_response_parsing:
  assumes "invoke_model (model_id self) (bedrock_build_payload self messages kwargs) = Inr body"
  shows "((\<forall>kvs. body \<noteq> JObj kvs) \<longrightarrow>
            bedrock_create_chat_completion invoke_model self messages False kwargs = Inl TypeError)
    \<and> (\<forall>kvs. body = JObj kvs \<and> map_of kvs ''content'' = None \<longrightarrow>
            bedrock_create_chat_completion invoke_model self messages False kwargs = Inl KeyError)
    \<and> (\<forall>kvs. body = JObj kvs \<and> map_of kvs ''content'' = Some (JArr []) \<longrightarrow>
            bedrock_create_chat_completion invoke_model self messages False kwargs = Inl IndexError)
    \<and> (\<forall>kvs blk rest. body = JObj kvs
            \<and> map_of kvs ''content'' = Some (JArr (JObj blk # rest))
            \<and> map_of blk ''text'' = None \<longrightarrow>
            bedrock_create_chat_completion invoke_model self messages False kwargs = Inl KeyError)
    \<and> (\<forall>kvs blk rest t. body = JObj kvs
            \<and> map_of kvs ''content'' = Some (JArr (JObj blk # rest))
            \<and> map_of blk ''text'' = Some t \<longrightarrow>
            bedrock_create_chat_completion invoke_model self messages False kwargs =
              Inr [\<lparr>choice_role = ''assistant'', choice_content = t,
                    choice_finish_reason =
                      (case map_of kvs ''stop_reason'' of None \<Rightarrow> JStr ''stop'' | Some v \<Rightarrow> v)\<rparr>])
    \<and> (\<forall>r. bedrock_create_chat_completion invoke_model self messages False kwargs = Inr r \<longrightarrow>
          (\<exists>kvs blk rest t. body = JObj kvs
            \<and> map_of kvs ''content'' = Some (JArr (JObj blk # rest))
            \<and> map_of blk ''text'' = Some t
            \<and> r = [\<lparr>choice_role = ''assistant'', choice_content = t,
                     choice_finish_reason =
                       (case map_of kvs ''stop_reason'' of None \<Rightarrow> JStr ''stop'' | Some v \<Rightarrow> v)\<rparr>]))"
proof (intro conjI allI impI)
  assume "\<forall>kvs. body \<noteq> JObj kvs"
  then show "bedrock_create_chat_completion invoke_model self messages False kwargs = Inl TypeError"
    using assms
    by (cases body) (simp_all add: bedrock_create_chat_completion_def first_block_text_def Let_def)
next
  fix kvs assume "body = JObj kvs \<and> map_of kvs ''content'' = None"
  then show "bedrock_create_chat_completion invoke_model self messages False kwargs = Inl KeyError"
    using assms by (simp add: bedrock_create_chat_completion_def first_block_text_def Let_def)
next
  fix kvs assume "body = JObj kvs \<and> map_of kvs ''content'' = Some (JArr [])"
  then show "bedrock_create_chat_completion invoke_model self messages False kwargs = Inl IndexError"
    using assms by (simp add: bedrock_create_chat_completion_def first_block_text_def Let_def)
next
  fix kvs blk rest
  assume "body = JObj kvs \<and> map_of kvs ''content'' = Some (JArr (JObj blk # rest))
            \<and> map_of blk ''text'' = None"
  then show "bedrock_create_chat_completion invoke_model self messages False kwargs = Inl KeyError"
    using assms by (simp add: bedrock_create_chat_completion_def first_block_text_def Let_def)
next
  fix kvs blk rest t
  assume "body = JObj kvs \<and> map_of kvs ''content'' = Some (JArr (JObj blk # rest))
            \<and> map_of blk ''text'' = Some t"
  then show "bedrock_create_chat_completion invoke_model self messages False kwargs =
              Inr [\<lparr>choice_role = ''assistant'', choice_content = t,
                    choice_finish_reason =
                      (case map_of kvs ''stop_reason'' of None \<Rightarrow> JStr ''stop'' | Some v \<Rightarrow> v)\<rparr>]"
    using assms by (simp add: bedrock_create_chat_completion_def first_block_text_def Let_def)
next
  fix r
  assume r: "bedrock_create_chat_completion invoke_model self messages False kwargs = Inr r"
  from create_Inr_text [OF assms r] obtain t where t: "first_block_text body = Inr t" by blast
  then obtain kvs blk rest where shape: "body = JObj kvs"
      "map_of kvs ''content'' = Some (JArr (JObj blk # rest))" "map_of blk ''text'' = Some t"
    unfolding first_block_text_Inr_iff by blast
  have "r = [\<lparr>choice_role = ''assistant'', choice_content = t,
              choice_finish_reason =
                (case map_of kvs ''stop_reason'' of None \<Rightarrow> JStr ''stop'' | Some v \<Rightarrow> v)\<rparr>]"
    using r assms t shape(1) by (simp add: bedrock_create_chat_completion_def Let_def)
  with shape show "\<exists>kvs blk rest t. body = JObj kvs
            \<and> map_of kvs ''content'' = Some (JArr (JObj blk # rest))
            \<and> map_of blk ''text'' = Some t
            \<and> r = [\<lparr>choice_role = ''assistant'', choice_content = t,
                     choice_finish_reason =
                       (case map_of kvs ''stop_reason'' of None \<Rightarrow> JStr ''stop'' | Some v \<Rightarrow> v)\<rparr>]"
    by blast
qed

text \<open>
  A body whose \<open>content\<close> list is empty raises \<open>IndexError\<close>; a body whose first block has
  no \<open>text\<close> raises \<open>KeyError\<close>.
\<close>

theorem bedrock_response_parsing_witness:
  "bedrock_create_chat_completion backend_without_content
     \<lparr>model_id = ''us.anthropic.claude-sonnet-4-20250514-v1:0'', aws_region = ''us-west-2'',
      bedrock_temperature = 0, max_tokens = 1024\<rparr>
     [MDict (Some ''user'') (Some (CStr ''hi''))] False
     \<lparr>kw_max_tokens = None, kw_temperature = None\<rparr>
   = Inl IndexError
   \<and> bedrock_create_chat_completion backend_without_text
     \<lparr>model_id = ''us.anthropic.claude-sonnet-4-20250514-v1:0'', aws_region = ''us-west-2'',
      bedrock_temperature = 0, max_tokens = 1024\<rparr>
     [MDict (Some ''user'') (Some (CStr ''hi''))] False
     \<lparr>kw_max_tokens = None, kw_temperature = None\<rparr>
   = Inl KeyError"
proof -
  let ?self = "\<lparr>model_id = ''us.anthropic.claude-sonnet-4-20250514-v1:0'', aws_region = ''us-west-2'',
      bedrock_temperature = 0, max_tokens = 1024\<rparr>"
  let ?ms = "[MDict (Some ''user'') (Some (CStr ''hi''))]"
  let ?kw = "\<lparr>kw_max_tokens = None, kw_temperature = None\<rparr>"
  let ?kvs1 = "[(''content'', JArr []), (''stop_reason'', JStr ''end_turn'')]"
  let ?blk = "[(''type'', JStr ''text'')]"
  let ?kvs2 = "[(''content'', JArr [JObj ?blk]), (''stop_reason'', JStr ''end_turn'')]"
  have h1: "backend_without_content (model_id ?self) (bedrock_build_payload ?self ?ms ?kw) = Inr (JObj ?kvs1)"
    by (simp add: backend_without_content_def)
  have h2: "backend_without_text (model_id ?self) (bedrock_build_payload ?self ?ms ?kw) = Inr (JObj ?kvs2)"
    by (simp add: backend_without_text_def)
  have s1: "JObj ?kvs1 = JObj ?kvs1 \<and> map_of ?kvs1 ''content'' = Some (JArr [])"
    by simp
  have s2: "JObj ?kvs2 = JObj ?kvs2 \<and> map_of ?kvs2 ''content'' = Some (JArr (JObj ?blk # []))
      \<and> map_of ?blk ''text'' = None"
    by simp
  from bedrock_response_parsing
    [where invoke_model = backend_without_content and self = ?self and messages = ?ms
       and kwargs = ?kw, OF h1] s1
  have 1: "bedrock_create_chat_completion backend_without_content ?self ?ms False ?kw = Inl IndexError"
    by blast
  from bedrock_response_parsing
    [where invoke_model = backend_without_text and self = ?self and messages = ?ms
       and kwargs = ?kw, OF h2] s2
  have 2: "bedrock_create_chat_completion backend_without_text ?self ?ms False ?kw = Inl KeyError"
    by blast
  from 1 2 show ?thesis by simp
qed

text \<open>
  Claim C8 as stated fails: a body with the first block's text and no \<open>stop_reason\<close> key
  is not an error, and the finish reason of the result is the default \<open>stop\<close>.
\<close>

theorem stop_reason_defaulted_counterexample:
  "bedrock_create_chat_completion backend_without_stop_reason
     \<lparr>model_id = ''us.anthropic.claude-sonnet-4-20250514-v1:0'', aws_region = ''us-west-2'',
      bedrock_temperature = 0, max_tokens = 1024\<rparr>
     [MDict (Some ''user'') (Some (CStr ''hi''))] False
     \<lparr>kw_max_tokens = None, kw_temperature = None\<rparr>
   = Inr [\<lparr>choice_role = ''assistant'', choice_content = JStr ''Hello'',
           choice_finish_reason = JStr ''stop''\<rparr>]"
  by (simp add: bedrock_create_chat_completion_def backend_without_stop_reason_def
      first_block_text_def Let_def)

subsection \<open>Configuration round trip of the launcher\<close>





subsection \<open>Serialised configuration of the generative-SDK adapter\<close>

text \<open>
  Claim C10. Two Gemini adapter instances constructed from arguments that differ only in
  the API key have equal serialised configurations, and the \<open>api_key\<close> field of the
  serialised configuration is always \<open>None\<close>.
\<close>

theorem gemini_config_hides_api_key:
  assumes "gemini_init genai_installed args = Inr (c1, k1)"
    and "gemini_init genai_installed (args\<lparr>arg_api_key := key2\<rparr>) = Inr (c2, k2)"
  shows "gemini_to_config c1 = gemini_to_config c2
    \<and> config_api_key (gemini_to_config c1) = None
    \<and> config_api_key (gemini_to_config c2) = None"
  using assms
  by (auto simp: gemini_init_def gemini_to_config_def Let_def split: if_splits)

text \<open>Two instances with the keys \<open>secret-one\<close> and \<open>secret-two\<close>.\<close>

theorem gemini_config_hides_api_key_witness:
  "gemini_to_config \<lparr>model_name = ''gemini-2.0-flash'', gemini_temperature = 0, max_output_tokens = 1024\<rparr>
     = \<lparr>config_model = ''gemini-2.0-flash'', config_api_key = None, config_temperature = 0,
        config_max_output_tokens = 1024\<rparr>
   \<and> gemini_init True
        \<lparr>arg_model = None, arg_api_key = Some ''secret-one'', arg_temperature = None,
         arg_max_output_tokens = None\<rparr>
     = Inr (\<lparr>model_name = ''gemini-2.0-flash'', gemini_temperature = 0, max_output_tokens = 1024\<rparr>,
            Some ''secret-one'')
   \<and> gemini_init True
        \<lparr>arg_model = None, arg_api_key = Some ''secret-two'', arg_temperature = None,
         arg_max_output_tokens = None\<rparr>
     = Inr (\<lparr>model_name = ''gemini-2.0-flash'', gemini_temperature = 0, max_output_tokens = 1024\<rparr>,
            Some ''secret-two'')"
proof -
  let ?args = "\<lparr>arg_model = None, arg_api_key = Some ''secret-one'', arg_temperature = None,
         arg_max_output_tokens = None\<rparr>"
  let ?c = "\<lparr>model_name = ''gemini-2.0-flash'', gemini_temperature = 0, max_output_tokens = 1024\<rparr>"
  have h1: "gemini_init True ?args = Inr (?c, Some ''secret-one'')"
    by (simp add: gemini_init_def)
  have h2: "gemini_init True (?args\<lparr>arg_api_key := Some ''secret-two''\<rparr>) = Inr (?c, Some ''secret-two'')"
    by (simp add: gemini_init_def)
  from gemini_config_hides_api_key [OF h1 h2] h1 h2 show ?thesis
    by (simp add: gemini_to_config_def)
qed

end
